theory Spec2Isabelle
  imports
    Complex_Main
    "HOL-Library.Sublist"
    "HOL-Library.List_Lexorder"
    "HOL-Library.Char_ord"
    "HOL-Library.Product_Lexorder"
begin

section \<open>Python values, dictionaries and exceptions\<close>

text \<open>
  The collector works on posts of type \<^verbatim>\<open>Dict[str, Any]\<close>. The values that occur in
  the repository's posts are \<^verbatim>\<open>None\<close>, integers (score, num_comments), strings
  (title, selftext, and the unparsable timestamp \<^verbatim>\<open>'invalid'\<close> of the test's bad posts)
  and \<^verbatim>\<open>datetime\<close> objects (created_utc).

  A datetime is its wall-clock reading, counted in microseconds, together with its UTC
  offset: \<open>None\<close> for a naive datetime (\<^verbatim>\<open>datetime.utcnow()\<close> in \<^verbatim>\<open>test_api.py\<close>),
  \<open>Some off\<close> for an aware one whose tzinfo is a fixed offset
  (\<^verbatim>\<open>datetime.now(timezone.utc)\<close> in \<^verbatim>\<open>test_date_filter.py\<close>). A tzinfo whose offset
  varies with the date is not represented.

  A string is the sequence of its UTF-8 bytes; the substring test and the order of two
  strings are the same on code points and on UTF-8 bytes.
\<close>

datatype py_datetime = Datetime int "int option"

datatype pyval = PNone | PInt int | PStr string | PDatetime py_datetime

type_synonym post = "string \<rightharpoonup> pyval"

datatype py_error =
    TypeError
  | AttributeError
  | InvalidArgument
  | RemoteError string

text \<open>\<^verbatim>\<open>d.get(key, default)\<close>\<close>

definition dict_get :: "post \<Rightarrow> string \<Rightarrow> pyval \<Rightarrow> pyval" where
  "dict_get d k dflt = (case d k of None \<Rightarrow> dflt | Some v \<Rightarrow> v)"

text \<open>Truth value of an object, as \<^verbatim>\<open>or\<close> and \<^verbatim>\<open>if\<close> take it.\<close>

fun truthy :: "pyval \<Rightarrow> bool" where
  "truthy PNone = False"
| "truthy (PInt i) = (i \<noteq> 0)"
| "truthy (PStr s) = (s \<noteq> [])"
| "truthy (PDatetime t) = True"

definition py_or :: "pyval \<Rightarrow> pyval \<Rightarrow> pyval" where
  "py_or a b = (if truthy a then a else b)"

text \<open>
  \<^verbatim>\<open>v.lower()\<close>: only a string has the method. The case mapping of \<^verbatim>\<open>str.lower\<close>
  is the Unicode table of the Python runtime, which is no part of the repository; it is
  the parameter \<open>lower\<close> of the model, and nothing is assumed about it.
\<close>

fun str_lower :: "(string \<Rightarrow> string) \<Rightarrow> pyval \<Rightarrow> py_error + string" where
  "str_lower lower (PStr s) = Inr (lower s)"
| "str_lower lower v = Inl AttributeError"

text \<open>
  On ASCII strings \<^verbatim>\<open>str.lower\<close> maps \<^verbatim>\<open>A\<close> to \<^verbatim>\<open>Z\<close> to \<^verbatim>\<open>a\<close> to \<^verbatim>\<open>z\<close> and
  leaves the other characters. The closed examples of this theory use ASCII strings and
  take this function for the parameter.
\<close>

definition ascii_lower_char :: "char \<Rightarrow> char" where
  "ascii_lower_char c =
     (if CHR ''A'' \<le> c \<and> c \<le> CHR ''Z'' then char_of (of_char c + (32::nat)) else c)"

definition ascii_lower :: "string \<Rightarrow> string" where
  "ascii_lower s = map ascii_lower_char s"

text \<open>\<^verbatim>\<open>sep.join(xs)\<close>\<close>

fun join :: "string \<Rightarrow> string list \<Rightarrow> string" where
  "join sep [] = []"
| "join sep [x] = x"
| "join sep (x # y # ys) = x @ sep @ join sep (y # ys)"

text \<open>\<^verbatim>\<open>needle in text\<close> on strings is the substring test.\<close>

definition str_contains :: "string \<Rightarrow> string \<Rightarrow> bool" where
  "str_contains needle text = sublist needle text"

text \<open>
  \<^verbatim>\<open>a - b\<close> on datetimes, in microseconds. Two naive datetimes give the difference of
  the wall clocks; two aware ones with the same offset too, and with different offsets
  the difference of the instants; a naive and an aware datetime raise TypeError.
\<close>

fun datetime_sub :: "py_datetime \<Rightarrow> py_datetime \<Rightarrow> py_error + int" where
  "datetime_sub (Datetime w1 None) (Datetime w2 None) = Inr (w1 - w2)"
| "datetime_sub (Datetime w1 (Some o1)) (Datetime w2 (Some o2)) =
     (if o1 = o2 then Inr (w1 - w2) else Inr ((w1 - o1) - (w2 - o2)))"
| "datetime_sub a b = Inl TypeError"

section \<open>Keyword filtering (lines 73 to 82 of the improved search method)\<close>

definition title_text :: "(string \<Rightarrow> string) \<Rightarrow> post \<Rightarrow> py_error + string" where
  "title_text lower post = str_lower lower (dict_get post ''title'' (PStr []))"

definition content_text :: "(string \<Rightarrow> string) \<Rightarrow> post \<Rightarrow> py_error + string" where
  "content_text lower post =
     str_lower lower (py_or (dict_get post ''selftext'' (PStr [])) (PStr []))"

definition combined_text :: "(string \<Rightarrow> string) \<Rightarrow> post \<Rightarrow> py_error + string" where
  "combined_text lower post =
     (case title_text lower post of
        Inl e \<Rightarrow> Inl e
      | Inr t \<Rightarrow>
          (case content_text lower post of
             Inl e \<Rightarrow> Inl e
           | Inr c \<Rightarrow> Inr (t @ '' '' @ c)))"

text \<open>\<^verbatim>\<open>any(keyword.lower() in combined_text for keyword in keywords)\<close>\<close>

definition any_keyword :: "(string \<Rightarrow> string) \<Rightarrow> string list \<Rightarrow> string \<Rightarrow> bool" where
  "any_keyword lower keywords text =
     list_ex (\<lambda>keyword. str_contains (lower keyword) text) keywords"

definition post_matches :: "(string \<Rightarrow> string) \<Rightarrow> post \<Rightarrow> string list \<Rightarrow> py_error + bool" where
  "post_matches lower post keywords =
     (case combined_text lower post of
        Inl e \<Rightarrow> Inl e
      | Inr text \<Rightarrow> Inr (any_keyword lower keywords text))"

text \<open>The loop over the date-filtered posts; the first exception leaves the loop.\<close>

fun keyword_filtered_posts ::
  "(string \<Rightarrow> string) \<Rightarrow> post list \<Rightarrow> string list \<Rightarrow> py_error + post list" where
  "keyword_filtered_posts lower [] keywords = Inr []"
| "keyword_filtered_posts lower (post # rest) keywords =
     (case post_matches lower post keywords of
        Inl e \<Rightarrow> Inl e
      | Inr hit \<Rightarrow>
          (case keyword_filtered_posts lower rest keywords of
             Inl e \<Rightarrow> Inl e
           | Inr kept \<Rightarrow> Inr (if hit then post # kept else kept)))"

section \<open>Ranking (lines 84 to 93 of the improved search method)\<close>

text \<open>
  \<^verbatim>\<open>list.sort\<close> compares the keys with \<^verbatim>\<open><\<close>. Two integers and two strings
  compare; two datetimes compare when both are naive or both are aware; None compares
  with nothing, not even with None, and values of two different kinds do not compare:
  Python raises TypeError.
\<close>

fun comparable :: "pyval \<Rightarrow> pyval \<Rightarrow> bool" where
  "comparable (PInt i) (PInt j) = True"
| "comparable (PStr s) (PStr t) = True"
| "comparable (PDatetime (Datetime w1 None)) (PDatetime (Datetime w2 None)) = True"
| "comparable (PDatetime (Datetime w1 (Some o1))) (PDatetime (Datetime w2 (Some o2))) = True"
| "comparable a b = False"

text \<open>
  \<^verbatim>\<open>a <= b\<close> on values that compare. Naive datetimes are ordered by wall clock; aware
  ones by wall clock when their offsets are equal and by instant otherwise.
\<close>

fun py_le :: "pyval \<Rightarrow> pyval \<Rightarrow> bool" where
  "py_le (PInt i) (PInt j) = (i \<le> j)"
| "py_le (PStr s) (PStr t) = (s \<le> t)"
| "py_le (PDatetime (Datetime w1 None)) (PDatetime (Datetime w2 None)) = (w1 \<le> w2)"
| "py_le (PDatetime (Datetime w1 (Some o1))) (PDatetime (Datetime w2 (Some o2))) =
     (if o1 = o2 then w1 \<le> w2 else w1 - o1 \<le> w2 - o2)"
| "py_le a b = False"

text \<open>
  A list of at most one key is sorted without any comparison. On a longer list every
  element takes part in a comparison and the comparisons connect all elements, so the
  sort succeeds exactly when all keys are of one comparable kind.
\<close>

definition keys_comparable :: "pyval list \<Rightarrow> bool" where
  "keys_comparable ks =
     (length ks \<le> 1 \<or> list_all (\<lambda>a. list_all (comparable a) ks) ks)"

text \<open>
  An order-preserving image of the keys of one kind in a linear order: the integer, the
  string, the wall clock of a naive datetime, the instant of an aware one. Two keys that
  compare have the same image exactly when neither is less than the other.
\<close>

fun key_ord :: "pyval \<Rightarrow> int \<times> string" where
  "key_ord (PInt i) = (i, [])"
| "key_ord (PDatetime (Datetime w None)) = (w, [])"
| "key_ord (PDatetime (Datetime w (Some off))) = (w - off, [])"
| "key_ord (PStr s) = (0, s)"
| "key_ord PNone = (0, [])"

text \<open>
  \<^verbatim>\<open>xs.sort(key=key, reverse=True)\<close>. The sort is stable; CPython obtains the
  descending order by reversing the list, sorting it ascending and reversing the result,
  which keeps elements with equal keys in their original order.
\<close>

definition list_sort_reverse :: "('a \<Rightarrow> pyval) \<Rightarrow> 'a list \<Rightarrow> py_error + 'a list" where
  "list_sort_reverse key xs =
     (if keys_comparable (map key xs)
      then Inr (rev (sort_key (\<lambda>x. key_ord (key x)) (rev xs)))
      else Inl TypeError)"

text \<open>\<^verbatim>\<open>xs[:n]\<close>; a negative \<open>n\<close> counts from the end.\<close>

definition slice_to :: "'a list \<Rightarrow> int \<Rightarrow> 'a list" where
  "slice_to xs n = (if 0 \<le> n then take (nat n) xs else take (length xs - nat (- n)) xs)"

definition sort_by_criteria :: "post list \<Rightarrow> string \<Rightarrow> py_error + post list" where
  "sort_by_criteria posts sort_by =
     (if sort_by = ''score'' then
        list_sort_reverse (\<lambda>x. dict_get x ''score'' (PInt 0)) posts
      else if sort_by = ''comments'' then
        list_sort_reverse (\<lambda>x. dict_get x ''num_comments'' (PInt 0)) posts
      else if sort_by = ''date'' then
        list_sort_reverse (\<lambda>x. dict_get x ''created_utc'' (PInt 0)) posts
      else Inr posts)"

definition final_results :: "post list \<Rightarrow> string \<Rightarrow> int \<Rightarrow> py_error + post list" where
  "final_results posts sort_by limit =
     (case sort_by_criteria posts sort_by of
        Inl e \<Rightarrow> Inl e
      | Inr ranked \<Rightarrow> Inr (slice_to ranked limit))"

text \<open>The dictionary key and the sort key that each of the three criteria reads.\<close>

definition criterion_field :: "string \<Rightarrow> string" where
  "criterion_field sort_by =
     (if sort_by = ''score'' then ''score''
      else if sort_by = ''comments'' then ''num_comments''
      else ''created_utc'')"

definition criterion_key :: "string \<Rightarrow> post \<Rightarrow> pyval" where
  "criterion_key sort_by x = dict_get x (criterion_field sort_by) (PInt 0)"

section \<open>The improved search method\<close>

text \<open>
  The keyword arguments of \<^verbatim>\<open>reddit.search_posts\<close>, as the method passes them
  (lines 52 to 58).
\<close>

record reddit_request =
  rq_query :: string
  rq_subreddit_name :: string
  rq_sort :: string
  rq_time_filter :: string
  rq_limit :: int

definition search_request :: "string \<Rightarrow> string list \<Rightarrow> string \<Rightarrow> int \<Rightarrow> reddit_request" where
  "search_request subreddit keywords time_filter limit =
     \<lparr>rq_query = join '' OR '' keywords,
      rq_subreddit_name = subreddit,
      rq_sort = ''relevance'',
      rq_time_filter = time_filter,
      rq_limit = min (limit * 3) 500\<rparr>"

text \<open>
  The method calls three operations that are not among the sources: the time filter
  selection and the date filter of \<^verbatim>\<open>services/date_filter_fix.py\<close>, and the
  search of the Reddit client (entered through \<^verbatim>\<open>async with\<close>). They are
  parameters of the model, and so is the case mapping of the runtime; each of the three
  operations may raise.
\<close>

record collaborators =
  select_time_filter :: "int \<Rightarrow> py_error + string"
  search_posts :: "reddit_request \<Rightarrow> py_error + post list"
  date_filtering :: "post list \<Rightarrow> int \<Rightarrow> bool \<Rightarrow> py_error + post list"
  runtime_lower :: "string \<Rightarrow> string"

text \<open>\<^verbatim>\<open>(date_to - date_from).days\<close>: the whole days of the difference, rounded down.\<close>

definition days_between :: "py_datetime \<Rightarrow> py_datetime \<Rightarrow> py_error + int" where
  "days_between date_from date_to =
     (case datetime_sub date_to date_from of
        Inl e \<Rightarrow> Inl e
      | Inr delta \<Rightarrow> Inr (delta div 86400000000))"

text \<open>
  \<^verbatim>\<open>search_subreddit_posts_by_keyword_and_date\<close>. The result is paired with the
  requests sent to the remote source, in order. The handler
  \<^verbatim>\<open>except Exception as e: logger.error(...); raise\<close> raises the exception it
  caught, so an error of any step is the error of the method; logging is not modelled.
\<close>

definition search_subreddit_posts_by_keyword_and_date ::
  "collaborators \<Rightarrow> string \<Rightarrow> string list \<Rightarrow> py_datetime \<Rightarrow> py_datetime \<Rightarrow> int \<Rightarrow> string
     \<Rightarrow> (py_error + post list) \<times> reddit_request list" where
  "search_subreddit_posts_by_keyword_and_date env subreddit keywords date_from date_to
       limit sort_by =
     (case days_between date_from date_to of
        Inl e \<Rightarrow> (Inl e, [])
      | Inr days_diff \<Rightarrow>
          (case select_time_filter env days_diff of
             Inl e \<Rightarrow> (Inl e, [])
           | Inr time_filter \<Rightarrow>
               (let request = search_request subreddit keywords time_filter limit
                in case search_posts env request of
                     Inl e \<Rightarrow> (Inl e, [request])
                   | Inr all_posts \<Rightarrow>
                       (case all_posts of
                          [] \<Rightarrow> (Inr [], [request])
                        | _ # _ \<Rightarrow>
                            (case date_filtering env all_posts days_diff True of
                               Inl e \<Rightarrow> (Inl e, [request])
                             | Inr filtered_posts \<Rightarrow>
                                 (case keyword_filtered_posts (runtime_lower env)
                                         filtered_posts keywords of
                                    Inl e \<Rightarrow> (Inl e, [request])
                                  | Inr kept \<Rightarrow>
                                      (final_results kept sort_by limit, [request])))))))"

section \<open>Time filter selection\<close>

text \<open>The window ALL is written \<open>ALL_TIME\<close>, \<open>ALL\<close> being a reserved word.\<close>

datatype time_window = DAY | WEEK | MONTH | YEAR | ALL_TIME

text \<open>The names under which the Reddit client takes the windows, as the test lists them.\<close>

fun time_filter_name :: "time_window \<Rightarrow> string" where
  "time_filter_name DAY = ''day''"
| "time_filter_name WEEK = ''week''"
| "time_filter_name MONTH = ''month''"
| "time_filter_name YEAR = ''year''"
| "time_filter_name ALL_TIME = ''all''"

text \<open>
  Modelled from the spec: \<^verbatim>\<open>ImprovedDateFiltering.select_optimal_time_filter\<close> is
  defined in \<^verbatim>\<open>services/date_filter_fix.py\<close>, which is not among the sources; only
  its test and its caller are. The model is the table of section 4.1 of the
  specification: 0 to 2 DAY, 3 to 13 WEEK, 14 to 29 MONTH, 30 to 364 YEAR, from 365 ALL;
  a negative day span is rejected with InvalidArgument.
\<close>

definition select_optimal_time_filter :: "int \<Rightarrow> py_error + time_window" where
  "select_optimal_time_filter days =
     (if days < 0 then Inl InvalidArgument
      else if days \<le> 2 then Inr DAY
      else if days \<le> 13 then Inr WEEK
      else if days \<le> 29 then Inr MONTH
      else if days \<le> 364 then Inr YEAR
      else Inr ALL_TIME)"

definition time_filter_string :: "int \<Rightarrow> py_error + string" where
  "time_filter_string days =
     (case select_optimal_time_filter days of
        Inl e \<Rightarrow> Inl e
      | Inr w \<Rightarrow> Inr (time_filter_name w))"

text \<open>
  \<^verbatim>\<open>test_time_filter_selection\<close> of \<^verbatim>\<open>test_date_filter.py\<close>, with the selection
  function as a parameter: the list of the cases and, for each case in order, whether the
  actual value equals the expected one. The test prints the marks and asserts nothing.
\<close>

definition test_cases :: "(int \<times> string) list" where
  "test_cases =
     [(1, ''day''), (3, ''week''), (7, ''week''), (15, ''month''), (30, ''month''),
      (60, ''year''), (400, ''all'')]"

fun time_filter_statuses ::
  "(int \<Rightarrow> py_error + string) \<Rightarrow> (int \<times> string) list \<Rightarrow> py_error + bool list" where
  "time_filter_statuses select [] = Inr []"
| "time_filter_statuses select ((days, expected) # rest) =
     (case select days of
        Inl e \<Rightarrow> Inl e
      | Inr actual \<Rightarrow>
          (case time_filter_statuses select rest of
             Inl e \<Rightarrow> Inl e
           | Inr statuses \<Rightarrow> Inr ((actual = expected) # statuses)))"

definition test_time_filter_selection :: "(int \<Rightarrow> py_error + string) \<Rightarrow> py_error + bool list" where
  "test_time_filter_selection select = time_filter_statuses select test_cases"

section \<open>Date range filter\<close>

record date_span =
  span_from :: int
  span_to :: int

record filter_report =
  total_in :: nat
  excluded_date :: nat
  excluded_keyword :: nat
  excluded_invalid :: nat
  final_count :: nat

text \<open>
  Modelled from the spec: the date filter (\<^verbatim>\<open>apply_improved_date_filtering\<close> of
  \<^verbatim>\<open>services/date_filter_fix.py\<close>) is not among the sources. The model follows the
  contract of section 4.2, \<^verbatim>\<open>filter(items, span, bufferHours, debug)\<close>, on the posts of
  the collector. A post has a timestamp when its created\_utc is a datetime: the instant
  of an aware datetime, and the wall clock of a naive one read as UTC (what
  \<^verbatim>\<open>datetime.utcnow()\<close> returns); a missing created\_utc and any other value (the
  test's \<^verbatim>\<open>'invalid'\<close>) are the invalid category. The span is widened by the buffer on
  both ends, an hour being 3600000000 microseconds. A span with \<open>to < from\<close> is the
  malformed date span of section 7 and is rejected with InvalidArgument. The debug flag
  selects logging, which the model does not have; the report is the same value with and
  without it.
\<close>

definition item_time :: "post \<Rightarrow> int option" where
  "item_time item =
     (case item ''created_utc'' of
        Some (PDatetime (Datetime w (Some off))) \<Rightarrow> Some (w - off)
      | Some (PDatetime (Datetime w None)) \<Rightarrow> Some w
      | _ \<Rightarrow> None)"

definition in_window :: "date_span \<Rightarrow> rat \<Rightarrow> int \<Rightarrow> bool" where
  "in_window dspan bufferHours t =
     (of_int (span_from dspan) - bufferHours * 3600000000 \<le> of_int t \<and>
      of_int t \<le> of_int (span_to dspan) + bufferHours * 3600000000)"

datatype verdict = Included | OutOfRange | InvalidTimestamp

definition classify :: "date_span \<Rightarrow> rat \<Rightarrow> post \<Rightarrow> verdict" where
  "classify dspan bufferHours item =
     (case item_time item of
        None \<Rightarrow> InvalidTimestamp
      | Some t \<Rightarrow> if in_window dspan bufferHours t then Included else OutOfRange)"

definition date_range_filter ::
  "post list \<Rightarrow> date_span \<Rightarrow> rat \<Rightarrow> bool \<Rightarrow> py_error + (post list \<times> filter_report)" where
  "date_range_filter items dspan bufferHours debug =
     (if span_to dspan < span_from dspan then Inl InvalidArgument
      else
        let kept = filter (\<lambda>item. classify dspan bufferHours item = Included) items
        in Inr (kept,
                \<lparr>total_in = length items,
                 excluded_date =
                   length (filter (\<lambda>item. classify dspan bufferHours item = OutOfRange) items),
                 excluded_keyword = 0,
                 excluded_invalid =
                   length (filter (\<lambda>item. classify dspan bufferHours item = InvalidTimestamp) items),
                 final_count = length kept\<rparr>))"

text \<open>
  Modelled from the spec: the date filter as the search method calls it,
  \<^verbatim>\<open>apply_improved_date_filtering(all_posts, days=days_diff, debug=True)\<close>, run at the
  instant \<open>now\<close>. Section 3 derives the span from the day count and section 4.2 gives the
  reference buffer of 4 hours: the span is the last \<open>days\<close> days up to \<open>now\<close>.
\<close>

definition date_filtering_at ::
  "int \<Rightarrow> post list \<Rightarrow> int \<Rightarrow> bool \<Rightarrow> py_error + post list" where
  "date_filtering_at now posts days debug =
     (case date_range_filter posts
             \<lparr>span_from = now - days * 86400000000, span_to = now\<rparr> 4 debug of
        Inl e \<Rightarrow> Inl e
      | Inr (kept, report) \<Rightarrow> Inr kept)"

section \<open>Example data\<close>

text \<open>An aware datetime in UTC, as \<^verbatim>\<open>datetime.now(timezone.utc)\<close> gives it.\<close>

definition utc :: "int \<Rightarrow> py_datetime" where
  "utc t = Datetime t (Some 0)"

text \<open>Four posts with a tie on the score, in arrival order a, b, c, d.\<close>

definition tie_posts :: "post list" where
  "tie_posts =
     [ [''reddit_id'' \<mapsto> PStr ''a'', ''score'' \<mapsto> PInt 75],
       [''reddit_id'' \<mapsto> PStr ''b'', ''score'' \<mapsto> PInt 100],
       [''reddit_id'' \<mapsto> PStr ''c'', ''score'' \<mapsto> PInt 75],
       [''reddit_id'' \<mapsto> PStr ''d'', ''score'' \<mapsto> PInt 50] ]"


text \<open>
  Two posts dated an hour and two hours before 1700000000000000, both about fastapi, the
  second with the score None.
\<close>

definition null_score_posts :: "post list" where
  "null_score_posts =
     [ [''reddit_id'' \<mapsto> PStr ''p1'', ''title'' \<mapsto> PStr ''fastapi tips'',
        ''created_utc'' \<mapsto> PDatetime (utc 1699996400000000), ''score'' \<mapsto> PInt 100],
       [''reddit_id'' \<mapsto> PStr ''p2'', ''title'' \<mapsto> PStr ''fastapi release'',
        ''created_utc'' \<mapsto> PDatetime (utc 1699992800000000), ''score'' \<mapsto> PNone] ]"



text \<open>
  The posts of \<^verbatim>\<open>test_edge_cases\<close> (no date, a bad date, a good post dated \<open>now\<close>) and
  a batch around the lower end of a span.
\<close>

definition bad_posts :: "int \<Rightarrow> post list" where
  "bad_posts now =
     [ [''reddit_id'' \<mapsto> PStr ''bad1'', ''title'' \<mapsto> PStr ''No date''],
       [''reddit_id'' \<mapsto> PStr ''bad2'', ''title'' \<mapsto> PStr ''Bad date'',
        ''created_utc'' \<mapsto> PStr ''invalid''],
       [''reddit_id'' \<mapsto> PStr ''good1'', ''title'' \<mapsto> PStr ''Good post'',
        ''created_utc'' \<mapsto> PDatetime (utc now)] ]"

definition edge_posts :: "post list" where
  "edge_posts =
     [ [''reddit_id'' \<mapsto> PStr ''early'', ''created_utc'' \<mapsto> PDatetime (utc 900)],
       [''reddit_id'' \<mapsto> PStr ''inside'', ''created_utc'' \<mapsto> PDatetime (utc 1500)],
       [''reddit_id'' \<mapsto> PStr ''late'', ''created_utc'' \<mapsto> PDatetime (utc 20000000000)] ]"

text \<open>
  The collaborators of a search run at the instant \<open>now\<close> against a given remote source:
  the modelled selection and date filter, and the ASCII case mapping.
\<close>

definition collaborators_at ::
  "int \<Rightarrow> (reddit_request \<Rightarrow> py_error + post list) \<Rightarrow> collaborators" where
  "collaborators_at now remote =
     \<lparr>select_time_filter = time_filter_string,
      search_posts = remote,
      date_filtering = date_filtering_at now,
      runtime_lower = ascii_lower\<rparr>"

text \<open>Three remote sources: one that raises, one that finds nothing, one that answers.\<close>

definition failing_remote :: "reddit_request \<Rightarrow> py_error + post list" where
  "failing_remote request = Inl (RemoteError ''rate limited'')"

definition empty_remote :: "reddit_request \<Rightarrow> py_error + post list" where
  "empty_remote request = Inr []"

definition answering_remote :: "post list \<Rightarrow> reddit_request \<Rightarrow> py_error + post list" where
  "answering_remote posts request = Inr posts"

section \<open>Keyword filtering: theorems\<close>

lemma any_keyword_Nil: "any_keyword lower [] text = False"
  by (simp add: any_keyword_def)

lemma any_keyword_iff:
  "any_keyword lower keywords text \<longleftrightarrow> (\<exists>k \<in> set keywords. sublist (lower k) text)"
  by (simp add: any_keyword_def str_contains_def list_ex_iff)

lemma post_matches_Nil: "post_matches lower post [] = Inr b \<Longrightarrow> \<not> b"
  by (auto simp: post_matches_def any_keyword_Nil split: sum.splits)

lemma keyword_filtered_posts_Nil:
  "keyword_filtered_posts lower posts [] = Inr kept \<Longrightarrow> kept = []"
proof (induction posts arbitrary: kept)
  case Nil
  then show ?case by simp
next
  case (Cons p ps)
  from Cons.prems obtain hit rest where
    hit: "post_matches lower p [] = Inr hit" and
    rest: "keyword_filtered_posts lower ps [] = Inr rest" and
    kept: "kept = (if hit then p # rest else rest)"
    by (auto split: sum.splits)
  from hit have "\<not> hit" by (rule post_matches_Nil)
  moreover from rest have "rest = []" by (rule Cons.IH)
  ultimately show ?case using kept by simp
qed

text \<open>
  C2, as the specification states it, fails: with an empty keyword list,
  \<^verbatim>\<open>any(...)\<close> ranges over nothing and is false, so the first sample post of the
  repository's test is not matched.
\<close>

theorem C2_empty_keywords_counterexample:
  "post_matches ascii_lower
     [''title'' \<mapsto> PStr ''Recent post about fastapi'', ''score'' \<mapsto> PInt 100] []
     = Inr False"
  by code_simp

text \<open>
  C2, amended: with an empty keyword list the keyword test is true for no post (it is
  false, or the post's title or body raises), and the keyword stage retains no post.
\<close>

theorem C2_empty_keywords_match_nothing:
  "(\<forall>b. post_matches lower post [] = Inr b \<longrightarrow> \<not> b) \<and>
   (\<forall>kept. keyword_filtered_posts lower posts [] = Inr kept \<longrightarrow> kept = [])"
  using post_matches_Nil keyword_filtered_posts_Nil by blast

theorem C2_empty_keywords_match_nothing_witness:
  "post_matches ascii_lower [''title'' \<mapsto> PStr ''Recent post about fastapi''] [] = Inr False \<and>
   keyword_filtered_posts ascii_lower
     [ [''title'' \<mapsto> PStr ''Recent post about fastapi''],
       [''title'' \<mapsto> PStr ''Yesterday post about fastapi''] ] [] = Inr []"
proof -
  let ?p = "[''title'' \<mapsto> PStr ''Recent post about fastapi'']"
  let ?q = "[''title'' \<mapsto> PStr ''Yesterday post about fastapi'']"
  obtain b where b: "post_matches ascii_lower ?p [] = Inr b"
    by (simp add: post_matches_def combined_text_def title_text_def content_text_def
        dict_get_def py_or_def)
  obtain kept where k: "keyword_filtered_posts ascii_lower [?p, ?q] [] = Inr kept"
    by (simp add: post_matches_def combined_text_def title_text_def content_text_def
        dict_get_def py_or_def)
  from C2_empty_keywords_match_nothing [of ascii_lower ?p "[?p, ?q]"] b k
  have "\<not> b" and "kept = []" by blast+
  with b k show ?thesis by simp
qed

text \<open>
  C9, as the specification states it, fails: the searched text is not the plain
  concatenation of title and body, a single space separates them. The keyword
  \<^verbatim>\<open>oba\<close> occurs in \<^verbatim>\<open>foobar\<close> and is not found in \<^verbatim>\<open>foo bar\<close>.
\<close>

theorem C9_concatenation_counterexample:
  "post_matches ascii_lower
     [''title'' \<mapsto> PStr ''foo'', ''selftext'' \<mapsto> PStr ''bar''] [''oba'']
     = Inr False \<and>
   sublist (ascii_lower ''oba'') (ascii_lower (''foo'' @ ''bar''))"
  by code_simp

text \<open>
  C9, amended: for a post whose title is a string or missing and whose body is a
  string, None or missing (None and missing are read as the empty string), and a
  non-empty keyword list, the keyword test is true if and only if at least one keyword, lower-cased by
  \<^verbatim>\<open>str.lower\<close>, occurs as a substring of the lower-cased title, one space and the
  lower-cased body, joined in this order. The statement holds for every case mapping.
\<close>

theorem C9_keyword_match_or_semantics:
  assumes "post ''title'' = Some (PStr title) \<or> (post ''title'' = None \<and> title = [])"
    and "post ''selftext'' = Some (PStr body) \<or>
         (post ''selftext'' \<in> {None, Some PNone} \<and> body = [])"
    and "keywords \<noteq> []"
  shows "post_matches lower post keywords =
           Inr (\<exists>k \<in> set keywords. sublist (lower k) (lower title @ '' '' @ lower body))"
proof -
  have t: "title_text lower post = Inr (lower title)"
    using assms(1) by (auto simp: title_text_def dict_get_def)
  have c: "content_text lower post = Inr (lower body)"
    using assms(2)
    by (auto simp: content_text_def dict_get_def py_or_def)
  have "combined_text lower post = Inr (lower title @ '' '' @ lower body)"
    by (simp add: combined_text_def t c)
  then show ?thesis
    by (simp add: post_matches_def any_keyword_iff)
qed

theorem C9_keyword_match_or_semantics_witness:
  "post_matches ascii_lower
     [''title'' \<mapsto> PStr ''Recent post about FastAPI''] [''flask'', ''fastapi'']
     = Inr True"
proof -
  let ?p = "[''title'' \<mapsto> PStr ''Recent post about FastAPI'']"
  have 1: "?p ''title'' = Some (PStr ''Recent post about FastAPI'') \<or>
           (?p ''title'' = None \<and> ''Recent post about FastAPI'' = [])" by simp
  have 2: "?p ''selftext'' = Some (PStr []) \<or>
           (?p ''selftext'' \<in> {None, Some PNone} \<and> ([]::string) = [])" by simp
  have 3: "[''flask'', ''fastapi''] \<noteq> []" by simp
  have 4: "(\<exists>k \<in> set [''flask'', ''fastapi''].
             sublist (ascii_lower k)
               (ascii_lower ''Recent post about FastAPI'' @ '' '' @ ascii_lower [])) = True"
    by code_simp
  show ?thesis
    using C9_keyword_match_or_semantics [OF 1 2 3, of ascii_lower] unfolding 4 .
qed

section \<open>Ranking: theorems\<close>

lemma key_ord_le: "comparable a b \<Longrightarrow> key_ord a \<le> key_ord b \<longleftrightarrow> py_le a b"
  by (induction a b rule: comparable.induct) (auto simp: less_eq_prod_def)

lemma sort_key_constant:
  "\<forall>x \<in> set xs. f x = c \<Longrightarrow> sort_key f xs = xs"
proof -
  assume a: "\<forall>x \<in> set xs. f x = c"
  then have "map f xs = replicate (length xs) c"
    by (induction xs) auto
  then have "sorted (map f xs)" by (simp add: sorted_replicate)
  then show ?thesis by (rule sort_key_id_if_sorted)
qed

lemma stable_rev_sort:
  "filter (\<lambda>y. key y = k) (rev (sort_key (\<lambda>x. g (key x)) (rev xs))) = filter (\<lambda>y. key y = k) xs"
proof -
  have "filter (\<lambda>y. key y = k) (sort_key (\<lambda>x. g (key x)) (rev xs))
          = sort_key (\<lambda>x. g (key x)) (filter (\<lambda>y. key y = k) (rev xs))"
    by (rule filter_sort)
  also have "\<dots> = filter (\<lambda>y. key y = k) (rev xs)"
    by (rule sort_key_constant [where c = "g k"]) simp
  finally have e: "filter (\<lambda>y. key y = k) (sort_key (\<lambda>x. g (key x)) (rev xs))
                     = filter (\<lambda>y. key y = k) (rev xs)" .
  have "filter (\<lambda>y. key y = k) (rev (sort_key (\<lambda>x. g (key x)) (rev xs)))
          = rev (filter (\<lambda>y. key y = k) (sort_key (\<lambda>x. g (key x)) (rev xs)))"
    by (simp add: rev_filter)
  also have "\<dots> = rev (filter (\<lambda>y. key y = k) (rev xs))"
    by (simp only: e)
  also have "\<dots> = filter (\<lambda>y. key y = k) xs"
    by (simp add: rev_filter)
  finally show ?thesis .
qed

lemma sorted_desc_rev_sort:
  "sorted_wrt (\<lambda>a b. g (key b) \<le> g (key a)) (rev (sort_key (\<lambda>x. g (key x)) (rev xs)))"
  for g :: "pyval \<Rightarrow> 'k::linorder"
proof -
  have "sorted (map (\<lambda>x. g (key x)) (sort_key (\<lambda>x. g (key x)) (rev xs)))"
    by (rule sorted_sort_key)
  then show ?thesis
    by (simp add: sorted_wrt_rev sorted_map)
qed

lemma sorted_wrt_short: "length xs \<le> 1 \<Longrightarrow> sorted_wrt P xs"
  by (cases xs) auto

lemma list_sort_reverse_sorted:
  assumes "list_sort_reverse key xs = Inr ys"
  shows "sorted_wrt (\<lambda>a b. py_le (key b) (key a)) ys"
proof -
  from assms have kc: "keys_comparable (map key xs)"
    and ys: "ys = rev (sort_key (\<lambda>x. key_ord (key x)) (rev xs))"
    by (auto simp: list_sort_reverse_def split: if_splits)
  have set_ys: "set ys = set xs" and len: "length ys = length xs" by (simp_all add: ys)
  show ?thesis
  proof (cases "length xs \<le> 1")
    case True
    with len show ?thesis by (simp add: sorted_wrt_short)
  next
    case False
    with kc have all: "\<forall>a \<in> set xs. \<forall>b \<in> set xs. comparable (key a) (key b)"
      by (auto simp: keys_comparable_def list_all_iff)
    have "sorted_wrt (\<lambda>a b. key_ord (key b) \<le> key_ord (key a)) ys"
      unfolding ys by (rule sorted_desc_rev_sort)
    then show ?thesis
    proof (rule sorted_wrt_mono_rel [rotated])
      fix a b assume "a \<in> set ys" "b \<in> set ys" "key_ord (key b) \<le> key_ord (key a)"
      with all set_ys show "py_le (key b) (key a)"
        by (simp add: key_ord_le)
    qed
  qed
qed

lemma sort_by_criteria_eq:
  "sort_by \<in> {''score'', ''comments'', ''date''} \<Longrightarrow>
   sort_by_criteria posts sort_by = list_sort_reverse (criterion_key sort_by) posts"
proof -
  assume "sort_by \<in> {''score'', ''comments'', ''date''}"
  then consider "sort_by = ''score''" | "sort_by = ''comments''" | "sort_by = ''date''"
    by blast
  then show ?thesis
  proof cases
    case 1
    have "criterion_key ''score'' = (\<lambda>x. dict_get x ''score'' (PInt 0))"
      by (rule ext) (simp add: criterion_key_def criterion_field_def)
    with 1 show ?thesis by (simp add: sort_by_criteria_def)
  next
    case 2
    have "criterion_key ''comments'' = (\<lambda>x. dict_get x ''num_comments'' (PInt 0))"
      by (rule ext) (simp add: criterion_key_def criterion_field_def)
    with 2 show ?thesis by (simp add: sort_by_criteria_def)
  next
    case 3
    have "criterion_key ''date'' = (\<lambda>x. dict_get x ''created_utc'' (PInt 0))"
      by (rule ext) (simp add: criterion_key_def criterion_field_def)
    with 3 show ?thesis by (simp add: sort_by_criteria_def)
  qed
qed

lemma list_sort_reverse_total:
  "keys_comparable (map key xs) \<Longrightarrow>
   list_sort_reverse key xs = Inr (rev (sort_key (\<lambda>x. key_ord (key x)) (rev xs)))"
  by (simp add: list_sort_reverse_def)

lemma list_sort_reverse_stable:
  assumes "list_sort_reverse key xs = Inr ys"
  shows "filter (\<lambda>y. key y = k) ys = filter (\<lambda>y. key y = k) xs"
proof -
  from assms have ys: "ys = rev (sort_key (\<lambda>x. key_ord (key x)) (rev xs))"
    by (auto simp: list_sort_reverse_def split: if_splits)
  show ?thesis unfolding ys by (rule stable_rev_sort)
qed

lemma list_sort_reverse_ties:
  assumes "list_sort_reverse key xs = Inr ys"
  shows "filter (\<lambda>y. key_ord (key y) = c) ys = filter (\<lambda>y. key_ord (key y) = c) xs"
proof -
  from assms have ys: "ys = rev (sort_key (\<lambda>x. key_ord (key x)) (rev xs))"
    by (auto simp: list_sort_reverse_def split: if_splits)
  have "filter (\<lambda>y. key_ord (key y) = c) ys
          = rev (filter (\<lambda>y. key_ord (key y) = c) (sort_key (\<lambda>x. key_ord (key x)) (rev xs)))"
    unfolding ys by (simp add: rev_filter)
  also have "\<dots> = rev (filter (\<lambda>y. key_ord (key y) = c) (rev xs))"
    by (simp only: sort_key_stable)
  also have "\<dots> = filter (\<lambda>y. key_ord (key y) = c) xs"
    by (simp add: rev_filter)
  finally show ?thesis .
qed

lemma list_sort_reverse_perm:
  assumes "list_sort_reverse key xs = Inr ys"
  shows "length ys = length xs" and "set ys = set xs"
  using assms by (auto simp: list_sort_reverse_def split: if_splits)

lemma sorted_wrt_take: "sorted_wrt P xs \<Longrightarrow> sorted_wrt P (take n xs)"
  by (metis append_take_drop_id sorted_wrt_append)

text \<open>The case mapping on the strings of the examples.\<close>

lemma ascii_lower_examples:
  "ascii_lower [] = []"
  "ascii_lower ''fastapi'' = ''fastapi''"
  "ascii_lower ''fastapi tips'' = ''fastapi tips''"
  "ascii_lower ''fastapi release'' = ''fastapi release''"
  "ascii_lower ''fastapi news'' = ''fastapi news''"
  by code_simp+

lemmas run_search =
  search_subreddit_posts_by_keyword_and_date_def collaborators_at_def days_between_def
  utc_def time_filter_string_def select_optimal_time_filter_def search_request_def
  answering_remote_def failing_remote_def empty_remote_def date_filtering_at_def
  date_range_filter_def classify_def item_time_def in_window_def
  post_matches_def combined_text_def title_text_def content_text_def dict_get_def py_or_def
  any_keyword_def str_contains_def ascii_lower_examples sublist_code

lemmas run_ranking =
  final_results_def sort_by_criteria_def list_sort_reverse_def keys_comparable_def
  slice_to_def sort_key_def less_eq_prod_def

lemma null_score_posts_search:
  "fst (search_subreddit_posts_by_keyword_and_date
          (collaborators_at 1700000000000000 (answering_remote null_score_posts))
          ''python'' [''fastapi''] (utc 1699395200000000) (utc 1700000000000000) 10 ''score'')
   = final_results null_score_posts ''score'' 10"
  by (simp add: run_search null_score_posts_def)

text \<open>
  C3, as stated, fails: Python's sort raises TypeError when two sort keys do not compare.
  Two posts that pass the date filter and the keyword filter, one with the score 100
  and one with the score None, make the ranking, and the search, raise.
\<close>

theorem C3_incomparable_keys_counterexample:
  "final_results null_score_posts ''score'' 10 = Inl TypeError \<and>
   fst (search_subreddit_posts_by_keyword_and_date
          (collaborators_at 1700000000000000 (answering_remote null_score_posts))
          ''python'' [''fastapi''] (utc 1699395200000000) (utc 1700000000000000) 10 ''score'')
     = Inl TypeError"
proof -
  have "final_results null_score_posts ''score'' 10 = Inl TypeError"
    by (simp add: run_ranking null_score_posts_def dict_get_def)
  then show ?thesis by (simp only: null_score_posts_search)
qed

text \<open>
  C3, amended: for the three criteria, a limit that is not negative and an input whose
  sort keys Python can compare with each other (all integers, all strings, all naive or
  all aware datetimes; or at most one item), the ranking returns min(limit, |input|)
  items, sorted descending on the criterion's key; the list that is truncated is the
  stable descending sort of the whole input, so items whose keys are equal, or compare
  as equal, keep their arrival order, and the truncation comes after the sort.
\<close>

theorem C3_rank_sorted_stable_truncated:
  assumes "sort_by \<in> {''score'', ''comments'', ''date''}"
    and "0 \<le> limit"
    and "keys_comparable (map (criterion_key sort_by) posts)"
  shows "\<exists>ranked out.
           sort_by_criteria posts sort_by = Inr ranked \<and>
           final_results posts sort_by limit = Inr out \<and>
           out = take (nat limit) ranked \<and>
           length out = min (nat limit) (length posts) \<and>
           sorted_wrt (\<lambda>a b. py_le (criterion_key sort_by b) (criterion_key sort_by a)) out \<and>
           length ranked = length posts \<and> set ranked = set posts \<and>
           sorted_wrt (\<lambda>a b. py_le (criterion_key sort_by b) (criterion_key sort_by a)) ranked \<and>
           (\<forall>k. filter (\<lambda>p. criterion_key sort_by p = k) ranked =
                filter (\<lambda>p. criterion_key sort_by p = k) posts) \<and>
           (\<forall>c. filter (\<lambda>p. key_ord (criterion_key sort_by p) = c) ranked =
                filter (\<lambda>p. key_ord (criterion_key sort_by p) = c) posts)"
proof -
  let ?key = "criterion_key sort_by"
  let ?ranked = "rev (sort_key (\<lambda>x. key_ord (?key x)) (rev posts))"
  have r: "list_sort_reverse ?key posts = Inr ?ranked"
    using assms(3) by (rule list_sort_reverse_total)
  then have s: "sort_by_criteria posts sort_by = Inr ?ranked"
    using assms(1) by (simp only: sort_by_criteria_eq)
  have f: "final_results posts sort_by limit = Inr (take (nat limit) ?ranked)"
    using assms(2) by (simp add: final_results_def s slice_to_def)
  have len: "length ?ranked = length posts" and st: "set ?ranked = set posts"
    using list_sort_reverse_perm [OF r] by blast+
  have srt: "sorted_wrt (\<lambda>a b. py_le (?key b) (?key a)) ?ranked"
    using r by (rule list_sort_reverse_sorted)
  have stab: "\<forall>k. filter (\<lambda>p. ?key p = k) ?ranked = filter (\<lambda>p. ?key p = k) posts"
    using list_sort_reverse_stable [OF r] by blast
  have ties: "\<forall>c. filter (\<lambda>p. key_ord (?key p) = c) ?ranked
                 = filter (\<lambda>p. key_ord (?key p) = c) posts"
    using list_sort_reverse_ties [OF r] by blast
  have l: "length (take (nat limit) ?ranked) = min (nat limit) (length posts)"
    by (simp only: length_take len min.commute)
  from s f l srt sorted_wrt_take [OF srt] len st stab ties show ?thesis by blast
qed

lemma tie_posts_keys: "keys_comparable (map (criterion_key ''score'') tie_posts)"
  by (simp add: keys_comparable_def tie_posts_def criterion_key_def criterion_field_def
      dict_get_def)

lemma tie_posts_ranked:
  "final_results tie_posts ''score'' 3 = Inr [tie_posts ! 1, tie_posts ! 0, tie_posts ! 2]"
  by (simp add: run_ranking tie_posts_def dict_get_def)

theorem C3_rank_sorted_stable_truncated_witness:
  "''score'' \<in> {''score'', ''comments'', ''date''} \<and> (0::int) \<le> 3 \<and>
   keys_comparable (map (criterion_key ''score'') tie_posts) \<and>
   final_results tie_posts ''score'' 3 = Inr [tie_posts ! 1, tie_posts ! 0, tie_posts ! 2] \<and>
   length [tie_posts ! 1, tie_posts ! 0, tie_posts ! 2] = min (nat 3) (length tie_posts)"
proof -
  have 1: "''score'' \<in> {''score'', ''comments'', ''date''}" by simp
  have 2: "(0::int) \<le> 3" by simp
  from C3_rank_sorted_stable_truncated [OF 1 2 tie_posts_keys]
  obtain out where "final_results tie_posts ''score'' 3 = Inr out"
    and "length out = min (nat 3) (length tie_posts)"
    by blast
  with tie_posts_ranked tie_posts_keys show ?thesis by simp
qed






section \<open>The improved search method: theorems\<close>





lemma search_requests:
  "snd (search_subreddit_posts_by_keyword_and_date env subreddit keywords date_from date_to
          limit sort_by) =
     (case days_between date_from date_to of
        Inl e \<Rightarrow> []
      | Inr days_diff \<Rightarrow>
          (case select_time_filter env days_diff of
             Inl e \<Rightarrow> []
           | Inr time_filter \<Rightarrow> [search_request subreddit keywords time_filter limit]))"
  by (simp add: search_subreddit_posts_by_keyword_and_date_def Let_def
      split: sum.splits list.splits)

lemma search_depends_on_answer:
  assumes "days_between date_from date_to = Inr days_diff"
    and "select_time_filter env days_diff = Inr time_filter"
    and "remote (search_request subreddit keywords time_filter limit)
           = search_posts env (search_request subreddit keywords time_filter limit)"
  shows "search_subreddit_posts_by_keyword_and_date (env\<lparr>search_posts := remote\<rparr>)
           subreddit keywords date_from date_to limit sort_by
         = search_subreddit_posts_by_keyword_and_date env
             subreddit keywords date_from date_to limit sort_by"
  using assms
  by (simp add: search_subreddit_posts_by_keyword_and_date_def Let_def
      split: sum.splits list.splits)

text \<open>
  C6: every request that the search sends to the remote source asks for
  min(limit * 3, 500) items. The request is the one the remote source is called with:
  an exception raised on it is the result of the search, and the search depends on the
  remote source through its answer to this request alone. Once the day count and the
  time filter are computed, exactly this one request is sent.
\<close>

theorem C6_overfetch_limit:
  "(\<forall>request \<in> set (snd (search_subreddit_posts_by_keyword_and_date env subreddit keywords
        date_from date_to limit sort_by)).
      rq_limit request = min (limit * 3) 500 \<and>
      (\<forall>e. search_posts env request = Inl e \<longrightarrow>
           fst (search_subreddit_posts_by_keyword_and_date env subreddit keywords
                  date_from date_to limit sort_by) = Inl e) \<and>
      (\<forall>remote. remote request = search_posts env request \<longrightarrow>
           search_subreddit_posts_by_keyword_and_date (env\<lparr>search_posts := remote\<rparr>)
             subreddit keywords date_from date_to limit sort_by
           = search_subreddit_posts_by_keyword_and_date env
               subreddit keywords date_from date_to limit sort_by)) \<and>
   (\<forall>days_diff time_filter.
      days_between date_from date_to = Inr days_diff \<and>
      select_time_filter env days_diff = Inr time_filter \<longrightarrow>
      snd (search_subreddit_posts_by_keyword_and_date env subreddit keywords
             date_from date_to limit sort_by)
        = [search_request subreddit keywords time_filter limit] \<and>
      rq_limit (search_request subreddit keywords time_filter limit) = min (limit * 3) 500)"
proof -
  let ?S = "search_subreddit_posts_by_keyword_and_date env subreddit keywords
              date_from date_to limit sort_by"
  have sent: "snd ?S = [search_request subreddit keywords time_filter limit]"
    if "days_between date_from date_to = Inr days_diff"
      "select_time_filter env days_diff = Inr time_filter" for days_diff time_filter
    using that by (simp add: search_requests)
  have lim: "rq_limit (search_request subreddit keywords time_filter limit)
               = min (limit * 3) 500" for time_filter
    by (simp add: search_request_def)
  have each: "rq_limit request = min (limit * 3) 500 \<and>
      (\<forall>e. search_posts env request = Inl e \<longrightarrow> fst ?S = Inl e) \<and>
      (\<forall>remote. remote request = search_posts env request \<longrightarrow>
           search_subreddit_posts_by_keyword_and_date (env\<lparr>search_posts := remote\<rparr>)
             subreddit keywords date_from date_to limit sort_by = ?S)"
    if "request \<in> set (snd ?S)" for request
  proof -
    from that obtain days_diff time_filter where
      d: "days_between date_from date_to = Inr days_diff" and
      t: "select_time_filter env days_diff = Inr time_filter" and
      r: "request = search_request subreddit keywords time_filter limit"
      by (auto simp: search_requests split: sum.splits dest: sym)
    have "fst ?S = Inl e" if "search_posts env request = Inl e" for e
      using that d t r
      by (simp add: search_subreddit_posts_by_keyword_and_date_def Let_def)
    moreover have "search_subreddit_posts_by_keyword_and_date (env\<lparr>search_posts := remote\<rparr>)
             subreddit keywords date_from date_to limit sort_by = ?S"
      if "remote request = search_posts env request" for remote
      using search_depends_on_answer [OF d t] that r by simp
    ultimately show ?thesis using lim r by blast
  qed
  from each sent lim show ?thesis by blast
qed

theorem C6_overfetch_limit_witness:
  "snd (search_subreddit_posts_by_keyword_and_date
          (collaborators_at 1700000000000000 failing_remote) ''python''
          [''fastapi'', ''api''] (utc 1699395200000000) (utc 1700000000000000) 200 ''score'')
     = [\<lparr>rq_query = ''fastapi OR api'', rq_subreddit_name = ''python'',
         rq_sort = ''relevance'', rq_time_filter = ''week'', rq_limit = 500\<rparr>] \<and>
   min (200 * 3) 500 = (500::int) \<and>
   fst (search_subreddit_posts_by_keyword_and_date
          (collaborators_at 1700000000000000 failing_remote) ''python''
          [''fastapi'', ''api''] (utc 1699395200000000) (utc 1700000000000000) 200 ''score'')
     = Inl (RemoteError ''rate limited'')"
proof -
  let ?env = "collaborators_at 1700000000000000 failing_remote"
  let ?S = "search_subreddit_posts_by_keyword_and_date ?env ''python''
          [''fastapi'', ''api''] (utc 1699395200000000) (utc 1700000000000000) 200 ''score''"
  let ?r = "search_request ''python'' [''fastapi'', ''api''] ''week'' 200"
  have d: "days_between (utc 1699395200000000) (utc 1700000000000000) = Inr 7"
    by (simp add: days_between_def utc_def)
  have t: "select_time_filter ?env 7 = Inr ''week''"
    by (simp add: collaborators_at_def time_filter_string_def select_optimal_time_filter_def)
  have x: "search_posts ?env ?r = Inl (RemoteError ''rate limited'')"
    by (simp add: collaborators_at_def failing_remote_def)
  note c6 = C6_overfetch_limit [of ?env "''python''" "[''fastapi'', ''api'']"
      "utc 1699395200000000" "utc 1700000000000000" 200 "''score''"]
  from c6 d t have s: "snd ?S = [?r]" by blast
  then have "?r \<in> set (snd ?S)" by simp
  with c6 x have f: "fst ?S = Inl (RemoteError ''rate limited'')" by blast
  from s f show ?thesis by (simp add: search_request_def)
qed

section \<open>Time filter selection and date range filter: theorems\<close>

text \<open>
  On the modelled selection the repository's test marks six of its seven cases as met;
  the case (30, "month") is marked as not met, the table giving 30 to YEAR.
\<close>

lemma test_time_filter_selection_marks:
  "test_time_filter_selection time_filter_string
     = Inr [True, True, True, True, False, True, True]"
  by (simp add: test_time_filter_selection_def test_cases_def time_filter_string_def
      select_optimal_time_filter_def)

text \<open>
  C1: for every day span that is not negative, the selection returns DAY on 0 to 2, WEEK
  on 3 to 13, MONTH on 14 to 29, YEAR on 30 to 364 and ALL from 365; the windows switch
  at 3, 14, 30 and 365.
\<close>

theorem C1_time_window_thresholds:
  "0 \<le> days \<Longrightarrow>
   (days \<le> 2 \<longrightarrow> select_optimal_time_filter days = Inr DAY) \<and>
   (3 \<le> days \<and> days \<le> 13 \<longrightarrow> select_optimal_time_filter days = Inr WEEK) \<and>
   (14 \<le> days \<and> days \<le> 29 \<longrightarrow> select_optimal_time_filter days = Inr MONTH) \<and>
   (30 \<le> days \<and> days \<le> 364 \<longrightarrow> select_optimal_time_filter days = Inr YEAR) \<and>
   (365 \<le> days \<longrightarrow> select_optimal_time_filter days = Inr ALL_TIME)"
  by (simp add: select_optimal_time_filter_def)

theorem C1_time_window_thresholds_witness:
  "select_optimal_time_filter 0 = Inr DAY \<and> select_optimal_time_filter 2 = Inr DAY \<and>
   select_optimal_time_filter 3 = Inr WEEK \<and> select_optimal_time_filter 13 = Inr WEEK \<and>
   select_optimal_time_filter 14 = Inr MONTH \<and> select_optimal_time_filter 29 = Inr MONTH \<and>
   select_optimal_time_filter 30 = Inr YEAR \<and> select_optimal_time_filter 364 = Inr YEAR \<and>
   select_optimal_time_filter 365 = Inr ALL_TIME"
  using C1_time_window_thresholds [of 0] C1_time_window_thresholds [of 2]
    C1_time_window_thresholds [of 3] C1_time_window_thresholds [of 13]
    C1_time_window_thresholds [of 14] C1_time_window_thresholds [of 29]
    C1_time_window_thresholds [of 30] C1_time_window_thresholds [of 364]
    C1_time_window_thresholds [of 365]
  by simp

lemma classify_invalid: "classify sp h item = InvalidTimestamp \<longleftrightarrow> item_time item = None"
  by (simp add: classify_def split: option.splits)

lemma classify_included:
  "classify sp h item = Included \<longleftrightarrow> (\<exists>t. item_time item = Some t \<and> in_window sp h t)"
  by (simp add: classify_def split: option.splits)

lemma verdict_partition:
  "length xs =
     length (filter (\<lambda>i. f i = Included) xs) +
     length (filter (\<lambda>i. f i = OutOfRange) xs) +
     length (filter (\<lambda>i. f i = InvalidTimestamp) xs)"
proof (induction xs)
  case Nil
  show ?case by simp
next
  case (Cons a xs)
  then show ?case by (cases "f a") simp_all
qed

lemma date_range_filter_valid:
  "span_from sp \<le> span_to sp \<Longrightarrow>
   date_range_filter items sp h debug =
     Inr (filter (\<lambda>item. classify sp h item = Included) items,
          \<lparr>total_in = length items,
           excluded_date = length (filter (\<lambda>item. classify sp h item = OutOfRange) items),
           excluded_keyword = 0,
           excluded_invalid =
             length (filter (\<lambda>item. classify sp h item = InvalidTimestamp) items),
           final_count = length (filter (\<lambda>item. classify sp h item = Included) items)\<rparr>)"
  by (simp add: date_range_filter_def Let_def)

lemma in_window_widen: "0 \<le> h \<Longrightarrow> in_window sp 0 t \<Longrightarrow> in_window sp h t"
proof -
  assume h: "0 \<le> h" and w: "in_window sp 0 t"
  from h have "0 \<le> h * 3600000000" by simp
  with w show ?thesis unfolding in_window_def by simp
qed

text \<open>
  C4: on a well-formed span the date range filter returns a result for every batch,
  whatever the timestamps of its items; no item without a timestamp (absent or
  unparsable) is kept, the report counts exactly these items as invalid, the three
  exclusion counts and the final count add up to the size of the batch, and the items
  kept are those kept from the batch without its invalid items.
\<close>

theorem C4_invalid_timestamps_counted_not_fatal:
  assumes "span_from sp \<le> span_to sp"
  shows "\<exists>kept report.
           date_range_filter items sp bufferHours debug = Inr (kept, report) \<and>
           (\<forall>item \<in> set items. item_time item = None \<longrightarrow> item \<notin> set kept) \<and>
           excluded_invalid report = length (filter (\<lambda>item. item_time item = None) items) \<and>
           total_in report = final_count report + excluded_date report + excluded_invalid report \<and>
           (\<exists>report'. date_range_filter (filter (\<lambda>item. item_time item \<noteq> None) items)
                         sp bufferHours debug = Inr (kept, report'))"
proof -
  let ?inc = "\<lambda>item. classify sp bufferHours item = Included"
  let ?kept = "filter ?inc items"
  note v = date_range_filter_valid [OF assms]
  have 1: "\<forall>item \<in> set items. item_time item = None \<longrightarrow> item \<notin> set ?kept"
    by (simp add: classify_included)
  have 2: "length (filter (\<lambda>item. classify sp bufferHours item = InvalidTimestamp) items)
             = length (filter (\<lambda>item. item_time item = None) items)"
    by (simp only: classify_invalid)
  have 3: "length items =
             length ?kept +
             length (filter (\<lambda>item. classify sp bufferHours item = OutOfRange) items) +
             length (filter (\<lambda>item. classify sp bufferHours item = InvalidTimestamp) items)"
    by (rule verdict_partition)
  have 4: "filter ?inc (filter (\<lambda>item. item_time item \<noteq> None) items) = ?kept"
    by (auto simp: classify_included intro: filter_cong)
  show ?thesis
    apply (subst v)
    apply (subst v)
    using 1 2 3 4 by simp
qed

lemma bad_posts_filtered:
  "date_range_filter (bad_posts 1700000000000000)
     \<lparr>span_from = 1699395200000000, span_to = 1700000000000000\<rparr> 4 True
   = Inr ([bad_posts 1700000000000000 ! 2],
          \<lparr>total_in = 3, excluded_date = 0, excluded_keyword = 0, excluded_invalid = 2,
           final_count = 1\<rparr>)"
  by (simp add: date_range_filter_def bad_posts_def classify_def item_time_def in_window_def
      utc_def)

theorem C4_invalid_timestamps_counted_not_fatal_witness:
  "date_range_filter (bad_posts 1700000000000000)
     \<lparr>span_from = 1699395200000000, span_to = 1700000000000000\<rparr> 4 True
   = Inr ([bad_posts 1700000000000000 ! 2],
          \<lparr>total_in = 3, excluded_date = 0, excluded_keyword = 0, excluded_invalid = 2,
           final_count = 1\<rparr>) \<and>
   length (filter (\<lambda>item. item_time item = None) (bad_posts 1700000000000000)) = 2"
proof -
  let ?sp = "\<lparr>span_from = 1699395200000000, span_to = 1700000000000000\<rparr>"
  have v: "span_from ?sp \<le> span_to ?sp" by simp
  from C4_invalid_timestamps_counted_not_fatal [OF v, of "bad_posts 1700000000000000" 4 True]
  obtain kept report where
    r: "date_range_filter (bad_posts 1700000000000000) ?sp 4 True = Inr (kept, report)" and
    n: "excluded_invalid report
          = length (filter (\<lambda>item. item_time item = None) (bad_posts 1700000000000000))"
    by blast
  from r have "excluded_invalid report = 2" by (auto simp: bad_posts_filtered)
  with n show ?thesis by (simp add: bad_posts_filtered)
qed

text \<open>
  C7: on a well-formed span and for a buffer H > 0, every item kept with buffer 0 is kept
  with buffer H, and an item is kept with buffer H exactly when it is in the batch and
  its time lies between span.from - H and span.to + H.
\<close>

theorem C7_wider_buffer_keeps_more:
  assumes "span_from sp \<le> span_to sp" and "0 < H"
  shows "\<exists>kept0 report0 keptH reportH.
           date_range_filter items sp 0 debug = Inr (kept0, report0) \<and>
           date_range_filter items sp H debug = Inr (keptH, reportH) \<and>
           set kept0 \<subseteq> set keptH \<and>
           (\<forall>item. item \<in> set keptH \<longleftrightarrow>
              item \<in> set items \<and>
              (\<exists>t. item_time item = Some t \<and>
                   of_int (span_from sp) - H * 3600000000 \<le> of_int t \<and>
                   of_int t \<le> of_int (span_to sp) + H * 3600000000))"
proof -
  from assms(2) have h: "0 \<le> H" by simp
  have sub: "set (filter (\<lambda>item. classify sp 0 item = Included) items)
               \<subseteq> set (filter (\<lambda>item. classify sp H item = Included) items)"
    using in_window_widen [OF h] by (auto simp: classify_included)
  have char: "\<forall>item. item \<in> set (filter (\<lambda>item. classify sp H item = Included) items) \<longleftrightarrow>
              item \<in> set items \<and>
              (\<exists>t. item_time item = Some t \<and>
                   of_int (span_from sp) - H * 3600000000 \<le> of_int t \<and>
                   of_int t \<le> of_int (span_to sp) + H * 3600000000)"
    by (simp add: classify_included in_window_def)
  from sub char show ?thesis
    unfolding date_range_filter_valid [OF assms(1)] by blast
qed

lemma edge_posts_exact:
  "date_range_filter edge_posts \<lparr>span_from = 1000, span_to = 2000\<rparr> 0 False
   = Inr ([edge_posts ! 1],
          \<lparr>total_in = 3, excluded_date = 2, excluded_keyword = 0, excluded_invalid = 0,
           final_count = 1\<rparr>)"
  by (simp add: date_range_filter_def edge_posts_def classify_def item_time_def in_window_def
      utc_def)

lemma edge_posts_buffered:
  "date_range_filter edge_posts \<lparr>span_from = 1000, span_to = 2000\<rparr> 1 False
   = Inr ([edge_posts ! 0, edge_posts ! 1],
          \<lparr>total_in = 3, excluded_date = 1, excluded_keyword = 0, excluded_invalid = 0,
           final_count = 2\<rparr>)"
  by (simp add: date_range_filter_def edge_posts_def classify_def item_time_def in_window_def
      utc_def)

theorem C7_wider_buffer_keeps_more_witness:
  "date_range_filter edge_posts \<lparr>span_from = 1000, span_to = 2000\<rparr> 0 False
     = Inr ([edge_posts ! 1],
          \<lparr>total_in = 3, excluded_date = 2, excluded_keyword = 0, excluded_invalid = 0,
           final_count = 1\<rparr>) \<and>
   date_range_filter edge_posts \<lparr>span_from = 1000, span_to = 2000\<rparr> 1 False
     = Inr ([edge_posts ! 0, edge_posts ! 1],
          \<lparr>total_in = 3, excluded_date = 1, excluded_keyword = 0, excluded_invalid = 0,
           final_count = 2\<rparr>) \<and>
   set [edge_posts ! 1] \<subseteq> set [edge_posts ! 0, edge_posts ! 1]"
proof -
  let ?sp = "\<lparr>span_from = 1000, span_to = 2000\<rparr>"
  have v: "span_from ?sp \<le> span_to ?sp" by simp
  have h: "(0::rat) < 1" by simp
  from C7_wider_buffer_keeps_more [OF v h, of edge_posts False]
  obtain kept0 report0 keptH reportH where
    a: "date_range_filter edge_posts ?sp 0 False = Inr (kept0, report0)" and
    b: "date_range_filter edge_posts ?sp 1 False = Inr (keptH, reportH)" and
    c: "set kept0 \<subseteq> set keptH"
    by blast
  from a have "kept0 = [edge_posts ! 1]" by (auto simp: edge_posts_exact)
  moreover from b have "keptH = [edge_posts ! 0, edge_posts ! 1]"
    by (auto simp: edge_posts_buffered)
  ultimately show ?thesis using c edge_posts_exact edge_posts_buffered by blast
qed

text \<open>
  C8: on a well-formed span, filtering the output of the filter again with the same span
  and buffer returns the same sequence, and the output is a subsequence of the input
  (the relative order of the input is kept).
\<close>

theorem C8_filter_idempotent_keeps_order:
  assumes "span_from sp \<le> span_to sp"
  shows "\<exists>kept report report'.
           date_range_filter items sp bufferHours debug = Inr (kept, report) \<and>
           date_range_filter kept sp bufferHours debug = Inr (kept, report') \<and>
           subseq kept items"
proof -
  let ?inc = "\<lambda>item. classify sp bufferHours item = Included"
  have "filter ?inc (filter ?inc items) = filter ?inc items" by simp
  moreover have "subseq (filter ?inc items) items" by (rule subseq_filter_left)
  ultimately show ?thesis
    unfolding date_range_filter_valid [OF assms] by simp
qed

theorem C8_filter_idempotent_keeps_order_witness:
  "date_range_filter edge_posts \<lparr>span_from = 1000, span_to = 2000\<rparr> 1 False
     = Inr ([edge_posts ! 0, edge_posts ! 1],
          \<lparr>total_in = 3, excluded_date = 1, excluded_keyword = 0, excluded_invalid = 0,
           final_count = 2\<rparr>) \<and>
   (\<exists>report'. date_range_filter [edge_posts ! 0, edge_posts ! 1]
       \<lparr>span_from = 1000, span_to = 2000\<rparr> 1 False
     = Inr ([edge_posts ! 0, edge_posts ! 1], report')) \<and>
   subseq [edge_posts ! 0, edge_posts ! 1] edge_posts"
proof -
  let ?sp = "\<lparr>span_from = 1000, span_to = 2000\<rparr>"
  have v: "span_from ?sp \<le> span_to ?sp" by simp
  from C8_filter_idempotent_keeps_order [OF v, of edge_posts 1 False]
  obtain kept report report' where
    a: "date_range_filter edge_posts ?sp 1 False = Inr (kept, report)" and
    b: "date_range_filter kept ?sp 1 False = Inr (kept, report')" and
    c: "subseq kept edge_posts"
    by blast
  from a have k: "kept = [edge_posts ! 0, edge_posts ! 1]" by (auto simp: edge_posts_buffered)
  from b c show ?thesis unfolding k using edge_posts_buffered by blast
qed

end
